theory Spec2Isabelle
  imports Complex_Main
begin

section \<open>Data model\<close>

text \<open>
  The backend keeps three collections that matter for the ride lifecycle: rides, cycles and
  stations (\<^verbatim>\<open>models/Ride.js\<close>, \<^verbatim>\<open>models/Cycle.js\<close>, \<^verbatim>\<open>models/Station.js\<close>).
  A document's \<^verbatim>\<open>_id\<close> is an ObjectId; it is held here as a natural number in the field
  \<open>oid\<close>. Dates are the milliseconds that \<^verbatim>\<open>Date.getTime()\<close> returns. A JavaScript
  \<^verbatim>\<open>null\<close> is \<open>None\<close>. Durations are integers (the schema's default 0 or a value of
  \<^verbatim>\<open>Math.round\<close>). Quotients are exact rationals: the rounding error of the source's
  doubles is not modelled; it cannot change the quotients that are rounded to an integer
  below (minutes, started hours, average).
\<close>

type_synonym oid = nat
type_synonym date = int

datatype ride_status = Active | Completed | Cancelled

datatype cycle_status = Available | InUse | Maintenance | OutOfService

record feedback =
  rating :: "int option"
  comment :: "string option"

record ride =
  oid :: oid
  userId :: oid
  cycleId :: oid
  stationId :: oid
  startTime :: date
  endTime :: "date option"
  duration :: int
  status :: ride_status
  startStation :: oid
  endStation :: "oid option"
  feedback :: feedback
  updatedAt :: date

text \<open>
  Of a cycle the external identifier \<open>cycleId\<close> (the text of the QR code), the home
  station, the status, the soft-delete flag and the modification time are kept; the
  descriptive attributes (model, colour, condition, QR image) are read and written by no
  operation below.
\<close>

record cycle =
  oid :: oid
  cycleId :: string
  stationId :: oid
  status :: cycle_status
  isActive :: bool
  updatedAt :: date

record station =
  oid :: oid
  name :: string
  isActive :: bool

record db =
  rides :: "ride list"
  cycles :: "cycle list"
  stations :: "station list"

text \<open>The response envelope \<^verbatim>\<open>{ success, message?, errors?, data? }\<close> with its HTTP status.\<close>

record 'a response =
  http_status :: nat
  success :: bool
  message :: "string option"
  errors :: "string list"
  data :: "'a option"

definition fail :: "nat \<Rightarrow> string \<Rightarrow> 'a response" where
  "fail code m = \<lparr>http_status = code, success = False, message = Some m, errors = [], data = None\<rparr>"

definition invalid :: "string list \<Rightarrow> 'a response" where
  "invalid es = \<lparr>http_status = 400, success = False, message = None, errors = es, data = None\<rparr>"

definition done_with :: "nat \<Rightarrow> string option \<Rightarrow> 'a option \<Rightarrow> 'a response" where
  "done_with code m d = \<lparr>http_status = code, success = True, message = m, errors = [], data = d\<rparr>"

section \<open>JavaScript arithmetic\<close>

text \<open>\<^verbatim>\<open>Math.round\<close> rounds to the nearest integer, a tie towards plus infinity.\<close>

definition js_round :: "rat \<Rightarrow> int" where
  "js_round x = \<lfloor>x + 1 / 2\<rfloor>"

text \<open>The remainder operator \<^verbatim>\<open>%\<close> takes the sign of the dividend.\<close>

definition js_rem :: "int \<Rightarrow> int \<Rightarrow> int" where
  "js_rem a b = sgn a * (\<bar>a\<bar> mod \<bar>b\<bar>)"

text \<open>
  A template literal prints an integer in decimal, with a minus sign when it is negative.
\<close>

definition digit :: "nat \<Rightarrow> char" where
  "digit d = char_of (d + 48)"

fun decimal :: "nat \<Rightarrow> string" where
  "decimal n = (if n div 10 = 0 then [digit n] else decimal (n div 10) @ [digit (n mod 10)])"

declare decimal.simps [simp del]

definition string_of_int :: "int \<Rightarrow> string" where
  "string_of_int i = (if i < 0 then CHR ''-'' # decimal (nat (- i)) else decimal (nat i))"

section \<open>The Ride model\<close>

text \<open>
  The \<^verbatim>\<open>pre('save')\<close> hook of \<^verbatim>\<open>models/Ride.js\<close>: when both times are set, the duration
  is the elapsed time in minutes, rounded.
\<close>

definition pre_save :: "ride \<Rightarrow> ride" where
  "pre_save r =
     (case ride.endTime r of
        None \<Rightarrow> r
      | Some e \<Rightarrow>
          (let durationMs = e - ride.startTime r
           in r\<lparr>ride.duration := js_round (of_int durationMs / (1000 * 60))\<rparr>))"

text \<open>The virtual \<^verbatim>\<open>formattedDuration\<close>.\<close>

definition formattedDuration :: "ride \<Rightarrow> string" where
  "formattedDuration r =
     (if ride.duration r = 0 then ''Ongoing''
      else
        (let hours = \<lfloor>(of_int (ride.duration r) :: rat) / 60\<rfloor>;
             minutes = js_rem (ride.duration r) 60
         in if hours > 0 then string_of_int hours @ ''h '' @ string_of_int minutes @ ''m''
            else string_of_int minutes @ ''m''))"

text \<open>The virtual \<^verbatim>\<open>cost\<close>: one unit per started hour.\<close>

definition cost :: "ride \<Rightarrow> int" where
  "cost r =
     (if ride.duration r = 0 then 0
      else (let hours = (of_int (ride.duration r) :: rat) / 60 in \<lceil>hours\<rceil> * 1))"

text \<open>
  \<^verbatim>\<open>Ride.findActiveRide\<close>: the first ride of the user that is active and has no end time,
  with its \<^verbatim>\<open>cycleId\<close> populated, that is, paired with the cycle document the reference
  resolves to (\<open>None\<close> when no such cycle is stored).
\<close>

definition Cycle_findById :: "db \<Rightarrow> oid \<Rightarrow> cycle option" where
  "Cycle_findById s i = find (\<lambda>c. cycle.oid c = i) (cycles s)"

definition findActiveRide :: "db \<Rightarrow> oid \<Rightarrow> (ride \<times> cycle option) option" where
  "findActiveRide s u =
     map_option (\<lambda>r. (r, Cycle_findById s (ride.cycleId r)))
       (find (\<lambda>r. ride.userId r = u \<and> ride.status r = Active \<and> ride.endTime r = None) (rides s))"

text \<open>
  \<^verbatim>\<open>Ride.getUserStats\<close>: the aggregation pipeline matches the completed rides of the user
  and groups them into one document; it yields no document when nothing matches.
\<close>

record stats =
  totalRides :: int
  totalDuration :: int
  totalCost :: int

definition getUserStats :: "db \<Rightarrow> oid \<Rightarrow> stats list" where
  "getUserStats s u =
     (let matched = filter (\<lambda>r. ride.userId r = u \<and> ride.status r = Completed) (rides s)
      in if matched = [] then []
         else [\<lparr>totalRides = int (length matched),
                totalDuration = sum_list (map ride.duration matched),
                totalCost = sum_list (map (\<lambda>r. \<lceil>(of_int (ride.duration r) :: rat) / 60\<rceil> * 1) matched)\<rparr>])"

text \<open>
  \<^verbatim>\<open>GET /api/users/:id/stats\<close> (\<^verbatim>\<open>routes/users.js\<close>), after the authorisation check: the
  first document of the aggregation or zeros, extended by the rounded average duration.
\<close>

record user_stats = stats +
  avgDuration :: int

definition get_id_stats :: "db \<Rightarrow> oid \<Rightarrow> user_stats" where
  "get_id_stats s u =
     (let result = (case getUserStats s u of
                      [] \<Rightarrow> \<lparr>totalRides = 0, totalDuration = 0, totalCost = 0\<rparr>
                    | st # _ \<Rightarrow> st)
      in stats.extend result
           (user_stats.fields
              (if totalRides result > 0
               then js_round (of_int (totalDuration result) / of_int (totalRides result))
               else 0)))"

section \<open>Revenue in the administrator's views\<close>






section \<open>Store operations\<close>

text \<open>
  A query by \<^verbatim>\<open>_id\<close> or by a filter touches the first matching document. An update of one
  document rewrites the first match and leaves the rest.
\<close>

fun update_first :: "('a \<Rightarrow> bool) \<Rightarrow> ('a \<Rightarrow> 'a) \<Rightarrow> 'a list \<Rightarrow> 'a list" where
  "update_first P f [] = []"
| "update_first P f (x # xs) = (if P x then f x # xs else x # update_first P f xs)"

definition Cycle_findOne :: "db \<Rightarrow> string \<Rightarrow> cycle option" where
  "Cycle_findOne s ext = find (\<lambda>c. cycle.cycleId c = ext \<and> cycle.isActive c) (cycles s)"

text \<open>
  The station identifier of a request body is held as the ObjectId it denotes, \<open>None\<close> when
  the field is missing or empty.
\<close>

definition Station_findById :: "db \<Rightarrow> oid option \<Rightarrow> station option" where
  "Station_findById s i =
     (case i of None \<Rightarrow> None | Some k \<Rightarrow> find (\<lambda>st. station.oid st = k) (stations s))"

text \<open>The driver gives a new document an identifier that no stored document has.\<close>

definition fresh_oid :: "ride list \<Rightarrow> oid" where
  "fresh_oid rs = Suc (fold max (map ride.oid rs) 0)"

text \<open>
  A new ride document: the given fields and the schema's defaults (no end time, duration
  0, status active, no end station, empty feedback).
\<close>

definition Ride_new :: "oid \<Rightarrow> oid \<Rightarrow> oid \<Rightarrow> oid \<Rightarrow> oid \<Rightarrow> date \<Rightarrow> ride" where
  "Ride_new i user cyc st ss now =
     \<lparr>ride.oid = i, userId = user, cycleId = cyc, stationId = st, startTime = now,
      endTime = None, duration = 0, status = Active, startStation = ss, endStation = None,
      feedback = \<lparr>rating = None, comment = None\<rparr>, updatedAt = now\<rparr>"

text \<open>
  \<^verbatim>\<open>Ride.create\<close> builds the document, rejects it when a required station reference is
  absent, runs the \<^verbatim>\<open>save\<close> hook and inserts it.
\<close>

definition Ride_create :: "db \<Rightarrow> oid \<Rightarrow> oid \<Rightarrow> oid option \<Rightarrow> oid option \<Rightarrow> date \<Rightarrow> (ride \<times> db) option" where
  "Ride_create s user cyc station_ref start_ref now =
     (case station_ref of
        None \<Rightarrow> None
      | Some st \<Rightarrow>
          (case start_ref of
             None \<Rightarrow> None
           | Some ss \<Rightarrow>
               (let r = pre_save (Ride_new (fresh_oid (rides s)) user cyc st ss now)
                in Some (r, s\<lparr>rides := rides s @ [r]\<rparr>))))"

text \<open>
  \<^verbatim>\<open>Ride.findByIdAndUpdate\<close> writes the given fields into the ride with that identifier. It
  is an update query, not a \<^verbatim>\<open>save\<close>: the \<^verbatim>\<open>pre('save')\<close> hook does not run.
\<close>

definition Ride_findByIdAndUpdate :: "db \<Rightarrow> oid \<Rightarrow> (ride \<Rightarrow> ride) \<Rightarrow> db" where
  "Ride_findByIdAndUpdate s i upd = s\<lparr>rides := update_first (\<lambda>r. ride.oid r = i) upd (rides s)\<rparr>"

definition Ride_findById :: "db \<Rightarrow> oid \<Rightarrow> ride option" where
  "Ride_findById s i = find (\<lambda>r. ride.oid r = i) (rides s)"

definition Cycle_findByIdAndUpdate :: "db \<Rightarrow> oid \<Rightarrow> (cycle \<Rightarrow> cycle) \<Rightarrow> db" where
  "Cycle_findByIdAndUpdate s i upd = s\<lparr>cycles := update_first (\<lambda>c. cycle.oid c = i) upd (cycles s)\<rparr>"

text \<open>
  \<^verbatim>\<open>cycle.updateStatus\<close> (\<^verbatim>\<open>models/Cycle.js\<close>) sets the status and the modification time of
  the document and saves it, which writes the two fields to the stored cycle of that
  identifier.
\<close>

definition status_update :: "cycle_status \<Rightarrow> date \<Rightarrow> cycle \<Rightarrow> cycle" where
  "status_update newStatus now c = c\<lparr>cycle.status := newStatus, cycle.updatedAt := now\<rparr>"

definition updateStatus :: "db \<Rightarrow> cycle \<Rightarrow> cycle_status \<Rightarrow> date \<Rightarrow> db" where
  "updateStatus s c newStatus now =
     Cycle_findByIdAndUpdate s (cycle.oid c) (status_update newStatus now)"


section \<open>Request bodies and their validation\<close>

record start_body =
  cycleId :: string
  stationId :: "oid option"

record end_body = start_body +
  feedback :: "feedback option"

definition validate_start :: "'a start_body_scheme \<Rightarrow> string list" where
  "validate_start body =
     (if start_body.cycleId body = [] then [''Cycle ID is required''] else []) @
     (if start_body.stationId body = None then [''Station ID is required''] else [])"

definition is_space :: "char \<Rightarrow> bool" where
  "is_space c = (c \<in> set [CHR '' '', CHR 0x09, CHR 0x0A, CHR 0x0B, CHR 0x0C, CHR 0x0D])"

definition trim :: "string \<Rightarrow> string" where
  "trim t = rev (dropWhile is_space (rev (dropWhile is_space t)))"

definition validate_end :: "end_body \<Rightarrow> string list" where
  "validate_end body =
     validate_start body @
     (case end_body.feedback body of
        None \<Rightarrow> []
      | Some fb \<Rightarrow>
          (case rating fb of
             None \<Rightarrow> []
           | Some n \<Rightarrow> if 1 \<le> n \<and> n \<le> 5 then [] else [''Rating must be between 1 and 5'']) @
          (case comment fb of
             None \<Rightarrow> []
           | Some t \<Rightarrow> if length (trim t) \<le> 500 then [] else [''Comment cannot exceed 500 characters'']))"

text \<open>The sanitiser \<^verbatim>\<open>trim()\<close> of the validation chain replaces the comment by its trimmed text.\<close>

definition sanitized_feedback :: "end_body \<Rightarrow> feedback" where
  "sanitized_feedback body =
     (case end_body.feedback body of
        None \<Rightarrow> \<lparr>rating = None, comment = None\<rparr>
      | Some fb \<Rightarrow> fb\<lparr>comment := map_option trim (comment fb)\<rparr>)"

section \<open>The ride routes\<close>

text \<open>
  Modelled from the spec: \<^verbatim>\<open>checkActiveRide\<close> of \<^verbatim>\<open>middleware/auth.js\<close>, which is not among
  the sources. The specification has StartRide, EndRide and CancelRide decide on "an
  existing ride in active state (checked by lookup)" of the authenticated rider; the
  lookup the Ride model offers for it is \<open>findActiveRide\<close>, and the routes read its
  result as \<^verbatim>\<open>req.activeRide\<close>.
\<close>

definition checkActiveRide :: "db \<Rightarrow> oid \<Rightarrow> (ride \<times> cycle option) option" where
  "checkActiveRide s user = findActiveRide s user"

text \<open>
  A handler awaits two store writes, first the ride and then the cycle. A write that
  rejects throws into the handler's \<^verbatim>\<open>catch\<close>, which answers 500; the \<open>fault\<close> says
  which write, if any, rejects in a run. Reads are taken to succeed.
\<close>

datatype fault = NoFault | RideWriteFails | CycleWriteFails

text \<open>\<^verbatim>\<open>POST /api/rides/start\<close>, for the authenticated \<open>user\<close> at time \<open>now\<close>.\<close>

definition post_start :: "fault \<Rightarrow> date \<Rightarrow> oid \<Rightarrow> start_body \<Rightarrow> db \<Rightarrow> ride response \<times> db" where
  "post_start flt now user body s =
     (if validate_start body \<noteq> [] then (invalid (validate_start body), s)
      else if checkActiveRide s user \<noteq> None then (fail 400 ''You already have an active ride'', s)
      else
        (case Cycle_findOne s (start_body.cycleId body) of
           None \<Rightarrow> (fail 404 ''Cycle not found'', s)
         | Some cycle \<Rightarrow>
             if cycle.status cycle \<noteq> Available then (fail 400 ''Cycle is not available for use'', s)
             else
               (case Station_findById s (start_body.stationId body) of
                  None \<Rightarrow> (fail 404 ''Station not found'', s)
                | Some station \<Rightarrow>
                    if flt = RideWriteFails then (fail 500 ''Server error while starting ride'', s)
                    else
                      (case Ride_create s user (cycle.oid cycle) (start_body.stationId body)
                              (start_body.stationId body) now of
                         None \<Rightarrow> (fail 500 ''Server error while starting ride'', s)
                       | Some (ride, s1) \<Rightarrow>
                           if flt = CycleWriteFails
                           then (fail 500 ''Server error while starting ride'', s1)
                           else (done_with 201 (Some ''Ride started successfully'') (Some ride),
                                 updateStatus s1 cycle InUse now)))))"

text \<open>
  The update document of the end route: end time, end station, status and feedback (and
  the modification time that the schema's \<^verbatim>\<open>timestamps\<close> option maintains). The duration
  is not among the fields.
\<close>

definition end_update :: "date \<Rightarrow> end_body \<Rightarrow> ride \<Rightarrow> ride" where
  "end_update now body r =
     r\<lparr>ride.endTime := Some now, ride.endStation := start_body.stationId body,
       ride.status := Completed, ride.feedback := sanitized_feedback body,
       ride.updatedAt := now\<rparr>"

text \<open>The update document of the cancel route: end time and status.\<close>

definition cancel_update :: "date \<Rightarrow> ride \<Rightarrow> ride" where
  "cancel_update now r =
     r\<lparr>ride.endTime := Some now, ride.status := Cancelled, ride.updatedAt := now\<rparr>"

text \<open>
  \<^verbatim>\<open>POST /api/rides/end\<close>. Reading \<^verbatim>\<open>_id\<close> of a populated reference that resolved to
  nothing throws, so that case answers 500 before any write.
\<close>

definition post_end :: "fault \<Rightarrow> date \<Rightarrow> oid \<Rightarrow> end_body \<Rightarrow> db \<Rightarrow> ride response \<times> db" where
  "post_end flt now user body s =
     (if validate_end body \<noteq> [] then (invalid (validate_end body), s)
      else
        (case checkActiveRide s user of
           None \<Rightarrow> (fail 400 ''No active ride found'', s)
         | Some (activeRide, populated) \<Rightarrow>
             (case Cycle_findOne s (start_body.cycleId body) of
                None \<Rightarrow> (fail 404 ''Cycle not found'', s)
              | Some cycle \<Rightarrow>
                  (case populated of
                     None \<Rightarrow> (fail 500 ''Server error while ending ride'', s)
                   | Some rideCycle \<Rightarrow>
                       if cycle.oid rideCycle \<noteq> cycle.oid cycle
                       then (fail 400 ''Cycle does not match your active ride'', s)
                       else
                         (case Station_findById s (start_body.stationId body) of
                            None \<Rightarrow> (fail 404 ''Station not found'', s)
                          | Some station \<Rightarrow>
                              if flt = RideWriteFails
                              then (fail 500 ''Server error while ending ride'', s)
                              else
                                (let s1 = Ride_findByIdAndUpdate s (ride.oid activeRide)
                                            (end_update now body)
                                 in if flt = CycleWriteFails
                                    then (fail 500 ''Server error while ending ride'', s1)
                                    else (done_with 200 (Some ''Ride ended successfully'')
                                            (Ride_findById s1 (ride.oid activeRide)),
                                          updateStatus s1 cycle Available now)))))))"

text \<open>
  \<^verbatim>\<open>POST /api/rides/cancel\<close>. The cycle is updated through the populated reference; when
  that resolved to nothing the update matches no document.
\<close>

definition post_cancel :: "fault \<Rightarrow> date \<Rightarrow> oid \<Rightarrow> db \<Rightarrow> ride response \<times> db" where
  "post_cancel flt now user s =
     (case checkActiveRide s user of
        None \<Rightarrow> (fail 400 ''No active ride to cancel'', s)
      | Some (activeRide, populated) \<Rightarrow>
          if flt = RideWriteFails then (fail 500 ''Server error while cancelling ride'', s)
          else
            (let s1 = Ride_findByIdAndUpdate s (ride.oid activeRide) (cancel_update now)
             in if flt = CycleWriteFails then (fail 500 ''Server error while cancelling ride'', s1)
                else (done_with 200 (Some ''Ride cancelled successfully'')
                        (Ride_findById s1 (ride.oid activeRide)),
                      (case populated of
                         None \<Rightarrow> s1
                       | Some rideCycle \<Rightarrow>
                           Cycle_findByIdAndUpdate s1 (cycle.oid rideCycle)
                             (status_update Available now)))))"

section \<open>The administrator's status update\<close>



section \<open>Runs of requests\<close>







section \<open>Consistency of rides and cycles\<close>

definition active_of_rider :: "db \<Rightarrow> oid \<Rightarrow> ride list" where
  "active_of_rider s u = filter (\<lambda>r. ride.userId r = u \<and> ride.status r = Active) (rides s)"







section \<open>A seeded store\<close>

text \<open>Two stations and two available cycles, no ride yet; rider 7 and rider 8 use it below.\<close>

definition demo_db :: db where
  "demo_db =
     \<lparr>rides = [],
      cycles =
        [\<lparr>cycle.oid = 10, cycleId = ''CYCLE001'', stationId = 1, status = Available,
          isActive = True, updatedAt = 0\<rparr>,
         \<lparr>cycle.oid = 11, cycleId = ''CYCLE002'', stationId = 2, status = Available,
          isActive = True, updatedAt = 0\<rparr>],
      stations =
        [\<lparr>station.oid = 1, name = ''Main Campus Station'', isActive = True\<rparr>,
         \<lparr>station.oid = 2, name = ''Engineering Building Station'', isActive = True\<rparr>]\<rparr>"

definition scan :: "string \<Rightarrow> oid \<Rightarrow> start_body" where
  "scan ext st = \<lparr>start_body.cycleId = ext, stationId = Some st\<rparr>"

definition scan_end :: "string \<Rightarrow> oid \<Rightarrow> end_body" where
  "scan_end ext st = \<lparr>start_body.cycleId = ext, stationId = Some st, feedback = None\<rparr>"

text \<open>The store after rider 7 has started a ride on CYCLE001 at time 0.\<close>

definition riding_db :: db where
  "riding_db = snd (post_start NoFault 0 7 (scan ''CYCLE001'' 1) demo_db)"

definition ride_of :: "int \<Rightarrow> ride" where
  "ride_of d =
     \<lparr>ride.oid = 1, userId = 7, cycleId = 10, stationId = 1, startTime = 0,
      endTime = Some (d * 60000), duration = d, status = Completed, startStation = 1,
      endStation = Some 2, feedback = \<lparr>rating = None, comment = None\<rparr>,
      updatedAt = d * 60000\<rparr>"




text \<open>A store in which rider 7 has two completed rides, of one and of two minutes.\<close>

definition two_rides_db :: db where
  "two_rides_db = demo_db\<lparr>rides := [ride_of 1, (ride_of 2)\<lparr>ride.oid := 2\<rparr>]\<rparr>"




section \<open>Lookups\<close>


lemma no_active_lookup_none: "active_of_rider s u = [] \<Longrightarrow> checkActiveRide s u = None"
  by (auto simp: active_of_rider_def checkActiveRide_def findActiveRide_def find_None_iff
      filter_empty_conv)

section \<open>Properties of the virtuals\<close>

text \<open>
  C10. A ride whose stored duration is 0 serialises with cost 0 and with the formatted
  duration \<^verbatim>\<open>Ongoing\<close>, whatever its status and times are: both virtuals test
  \<^verbatim>\<open>!this.duration\<close>, which holds for 0. This includes a completed ride.
\<close>

theorem zero_duration_virtuals:
  "ride.duration r = 0 \<Longrightarrow> cost r = 0 \<and> formattedDuration r = ''Ongoing''"
  by (simp add: cost_def formattedDuration_def)

theorem zero_duration_virtuals_witness:
  "ride.duration (ride_of 0) = 0 \<and> ride.status (ride_of 0) = Completed \<and>
   cost (ride_of 0) = 0 \<and> formattedDuration (ride_of 0) = ''Ongoing''"
  using zero_duration_virtuals [of "ride_of 0"] by (simp add: ride_of_def)

section \<open>Rejected requests\<close>

text \<open>
  C5. When the rider has no active ride, ending and cancelling both answer 400 and leave
  the store as it was. For ending, a body that passes validation gets the message
  \<^verbatim>\<open>No active ride found\<close>; a body that fails validation is answered 400 by the
  validation step, which runs first.
\<close>

theorem no_active_ride_rejected:
  assumes "active_of_rider s user = []"
  shows "snd (post_end flt now user body s) = s \<and>
         http_status (fst (post_end flt now user body s)) = 400 \<and>
         (validate_end body = [] \<longrightarrow>
            fst (post_end flt now user body s) = fail 400 ''No active ride found'') \<and>
         post_cancel flt' now' user s = (fail 400 ''No active ride to cancel'', s)"
  using no_active_lookup_none [OF assms]
  by (simp add: post_end_def post_cancel_def invalid_def fail_def)

theorem no_active_ride_rejected_witness:
  "active_of_rider demo_db 7 = [] \<and>
   validate_end (scan_end ''CYCLE001'' 1) = [] \<and>
   post_end NoFault 5 7 (scan_end ''CYCLE001'' 1) demo_db =
     (fail 400 ''No active ride found'', demo_db) \<and>
   post_cancel NoFault 5 7 demo_db = (fail 400 ''No active ride to cancel'', demo_db)"
proof -
  have a: "active_of_rider demo_db 7 = []"
    by (simp add: active_of_rider_def demo_db_def)
  have v: "validate_end (scan_end ''CYCLE001'' 1) = []"
    by (simp add: validate_end_def validate_start_def scan_end_def)
  from no_active_ride_rejected [OF a, of NoFault 5 "scan_end ''CYCLE001'' 1" NoFault 5] v a
  show ?thesis by (simp add: prod_eq_iff)
qed






section \<open>Duration of an ended ride\<close>

lemma js_round_quotient: "0 < b \<Longrightarrow> js_round (of_int a / of_int b) = (2 * a + b) div (2 * b)"
proof -
  assume b: "0 < b"
  have "(of_int a / of_int b + 1 / 2 :: rat) = of_int (2 * a + b) / of_int (2 * b)"
    using b by (simp add: field_simps)
  then show ?thesis
    unfolding js_round_def by (simp only: floor_divide_of_int_eq)
qed

text \<open>The hook computes the rounded minutes between the two times of the document it is run on.\<close>

lemma pre_save_duration:
  "ride.endTime r = Some e \<Longrightarrow> ride.duration (pre_save r) = js_round (of_int (e - ride.startTime r) / 60000)"
  by (simp add: pre_save_def)

lemma update_first_map: "(\<And>x. g (f x) = g x) \<Longrightarrow> map g (update_first P f xs) = map g xs"
  by (induction xs) auto

lemma post_end_keeps_durations:
  "map ride.duration (rides (snd (post_end flt now user body s))) = map ride.duration (rides s)"
  by (auto simp: post_end_def Ride_findByIdAndUpdate_def updateStatus_def Cycle_findByIdAndUpdate_def
      update_first_map end_update_def Let_def split: option.splits)

text \<open>
  C4. The end route writes the end time, the end station, the status and the feedback with
  \<^verbatim>\<open>Ride.findByIdAndUpdate\<close>, an update query on which the \<^verbatim>\<open>pre('save')\<close> hook does not
  run, so the stored duration keeps the value 0 it got at creation. Rider 7 starts on
  CYCLE001 at time 0 and ends at 600000 ms: the ride is completed with both times set, the
  rounded minutes are 10, the stored duration is 0.
\<close>

theorem end_ride_leaves_duration:
  "http_status (fst (post_end NoFault 600000 7 (scan_end ''CYCLE001'' 2) riding_db)) = 200 \<and>
   map_option ride.status (Ride_findById (snd (post_end NoFault 600000 7 (scan_end ''CYCLE001'' 2) riding_db)) 1) = Some Completed \<and>
   map_option ride.endTime (Ride_findById (snd (post_end NoFault 600000 7 (scan_end ''CYCLE001'' 2) riding_db)) 1) = Some (Some 600000) \<and>
   map_option ride.startTime (Ride_findById (snd (post_end NoFault 600000 7 (scan_end ''CYCLE001'' 2) riding_db)) 1) = Some 0 \<and>
   map_option ride.duration (Ride_findById (snd (post_end NoFault 600000 7 (scan_end ''CYCLE001'' 2) riding_db)) 1) = Some 0 \<and>
   js_round (of_int (600000 - 0) / 60000) = 10"
  by code_simp

section \<open>Cost and revenue\<close>









section \<open>User statistics\<close>

text \<open>
  With completed rides of 1 and 2 minutes the reported average is 2, not 3/2.
\<close>

theorem average_is_rounded_counterexample:
  "(of_int (avgDuration (get_id_stats two_rides_db 7)) :: rat) \<noteq>
     of_int (totalDuration (get_id_stats two_rides_db 7)) / of_int (totalRides (get_id_stats two_rides_db 7))"
  by code_simp

text \<open>
  C9 (as the code has it). Over the completed rides of a rider the statistics give their
  number, the sum of their durations, the sum of their started hours times 1, and as
  average the quotient of total duration and number rounded to the nearest integer; the
  average is 0 when there is no completed ride.
\<close>

theorem user_stats_totals:
  "totalRides (get_id_stats s u) = int (length (filter (\<lambda>r. ride.userId r = u \<and> ride.status r = Completed) (rides s))) \<and>
   totalDuration (get_id_stats s u) =
     sum_list (map ride.duration (filter (\<lambda>r. ride.userId r = u \<and> ride.status r = Completed) (rides s))) \<and>
   totalCost (get_id_stats s u) =
     sum_list (map (\<lambda>r. \<lceil>(of_int (ride.duration r) :: rat) / 60\<rceil> * 1)
       (filter (\<lambda>r. ride.userId r = u \<and> ride.status r = Completed) (rides s))) \<and>
   avgDuration (get_id_stats s u) =
     (if filter (\<lambda>r. ride.userId r = u \<and> ride.status r = Completed) (rides s) = [] then 0
      else js_round (of_int (totalDuration (get_id_stats s u)) / of_int (totalRides (get_id_stats s u))))"
  by (simp add: get_id_stats_def getUserStats_def stats.defs user_stats.defs Let_def)

section \<open>What each route does to the store\<close>















section \<open>At most one active ride per rider\<close>






lemma end_update_closed [simp]:
  "ride.status (end_update now body r) = Completed" "ride.userId (end_update now body r) = ride.userId r"
  "ride.cycleId (end_update now body r) = ride.cycleId r" "ride.oid (end_update now body r) = ride.oid r"
  by (simp_all add: end_update_def)

lemma cancel_update_closed [simp]:
  "ride.status (cancel_update now r) = Cancelled" "ride.userId (cancel_update now r) = ride.userId r"
  "ride.cycleId (cancel_update now r) = ride.cycleId r" "ride.oid (cancel_update now r) = ride.oid r"
  by (simp_all add: cancel_update_def)







section \<open>Starting a ride is two writes\<close>



lemma status_update_keeps [simp]:
  "cycle.oid (status_update v now c) = cycle.oid c"
  "cycle.cycleId (status_update v now c) = cycle.cycleId c"
  "cycle.isActive (status_update v now c) = cycle.isActive c"
  "cycle.status (status_update v now c) = v"
  by (simp_all add: status_update_def)






section \<open>Cycles in use and active rides\<close>

















end
